theory Spec2Isabelle
  imports Complex_Main "HOL-Library.Sublist"
begin

section \<open>The resilient \<open>fetch_user\<close> tool of \<open>src/examples/rest-api.ts\<close>\<close>

text \<open>
  This part embeds the second, resilient version of \<open>rest-api.ts\<close>: the constants
  \<open>MAX_RETRIES\<close> and \<open>INITIAL_RETRY_DELAY\<close>, \<open>getRetryDelay\<close>, \<open>formatUserData\<close>, the
  refinements that \<open>UserDataSchema\<close> writes out itself, and the handler registered under
  the name \<open>fetch_user\<close> with its retry loop, its \<open>try\<close> block and its \<open>catch\<close> block.

  What the handler cannot decide is given by an environment: for each attempt index, what
  \<open>fetch\<close> does (it throws, or it resolves to a response), and for a response what
  \<open>response.json()\<close> does and what zod's validation makes of the body. Every
  \<open>throw\<close> of the source is a value (\<open>Inl\<close>) of the \<open>try\<close> block's result, the
  network calls and the timer waits are logged in order, and the loop is a recursive
  function whose termination is proved.
\<close>

subsection \<open>JavaScript strings and numbers, as far as the handler uses them\<close>

text \<open>
  A template literal applies the runtime's Number-to-string conversion to a number. For a
  safe integer (at most \<open>Number.MAX_SAFE_INTEGER\<close>, which is \<open>2^53 - 1\<close>) the
  conversion gives the decimal digits, and \<open>String_number\<close> computes them. A larger
  number is printed by the shortest digits that identify it and, from \<open>10^21\<close> on, with
  an exponent; that part of the conversion is a parameter, \<open>toString\<close>, of everything
  that prints an identifier, and \<open>template_number\<close> is the conversion for every
  non-negative integer. An HTTP status has three digits and is printed by
  \<open>String_number\<close>.
\<close>

fun String_number :: "nat \<Rightarrow> string" where
  "String_number n =
     (if n < 10 then [''0123456789'' ! n]
      else String_number (n div 10) @ [''0123456789'' ! (n mod 10)])"

definition MAX_SAFE_INTEGER :: nat where
  "MAX_SAFE_INTEGER = 2 ^ 53 - 1"

definition template_number :: "(nat \<Rightarrow> string) \<Rightarrow> nat \<Rightarrow> string" where
  "template_number toString n =
     (if n \<le> MAX_SAFE_INTEGER then String_number n else toString n)"

text \<open>\<open>Array.prototype.join\<close> on an array of strings.\<close>

fun join :: "string \<Rightarrow> string list \<Rightarrow> string" where
  "join sep [] = []"
| "join sep [x] = x"
| "join sep (x # y # ys) = x @ sep @ join sep (y # ys)"

text \<open>
  \<open>String.prototype.trim\<close> removes white space and line terminators at both ends. The
  model knows the ASCII ones (tab, line feed, vertical tab, form feed, carriage return,
  space); \<open>formatUserData\<close> applies it to a text whose second character is \<open>U\<close> and
  whose last but one character is a double quote, so that nothing else is ever looked at.
\<close>

definition is_whitespace :: "char \<Rightarrow> bool" where
  "is_whitespace c = (c \<in> set [CHR 0x09, CHR 0x0A, CHR 0x0B, CHR 0x0C, CHR 0x0D, CHR 0x20])"

definition trim :: "string \<Rightarrow> string" where
  "trim s = rev (dropWhile is_whitespace (rev (dropWhile is_whitespace s)))"

text \<open>The number of positions of a text at which a pattern starts.\<close>

fun occurrences :: "string \<Rightarrow> string \<Rightarrow> nat" where
  "occurrences p [] = (if p = [] then 1 else 0)"
| "occurrences p (c # cs) = (if prefix p (c # cs) then 1 else 0) + occurrences p cs"

subsection \<open>Constants and backoff\<close>

definition MAX_RETRIES :: nat where
  "MAX_RETRIES = 3"

definition INITIAL_RETRY_DELAY :: nat where
  "INITIAL_RETRY_DELAY = 1000"

definition getRetryDelay :: "nat \<Rightarrow> nat" where
  "getRetryDelay attempt = INITIAL_RETRY_DELAY * 2 ^ attempt"

subsection \<open>The validated record and its formatting\<close>

record Address =
  street :: string
  suite :: string
  city :: string
  zipcode :: string

record Company =
  company_name :: string
  catchPhrase :: string
  bs :: string

text \<open>
  \<open>z.infer<typeof UserDataSchema>\<close>. The field \<open>id\<close> is called \<open>user_id\<close> and the
  company's \<open>name\<close> is called \<open>company_name\<close>; a JSON number that zod accepts is
  finite, hence a rational.
\<close>

record UserData =
  user_id :: rat
  name :: string
  username :: string
  email :: string
  address :: Address
  phone :: string
  website :: string
  company :: Company





definition formatUserData :: "UserData \<Rightarrow> string" where
  "formatUserData userData = trim (
     ''\<newline>User Profile:'' @
     ''\<newline>  Name: '' @ name userData @
     ''\<newline>  Username: '' @ username userData @
     ''\<newline>  Email: '' @ email userData @
     ''\<newline>  Address: '' @ street (address userData) @ '', '' @ suite (address userData) @
     ''\<newline>           '' @ city (address userData) @ '', '' @ zipcode (address userData) @
     ''\<newline>  Phone: '' @ phone userData @
     ''\<newline>  Website: '' @ website userData @
     ''\<newline>  Company: '' @ company_name (company userData) @
     ''\<newline>          '' @ [CHR 0x22] @ catchPhrase (company userData) @ [CHR 0x22] @
     ''\<newline>'')"

subsection \<open>Tool results, thrown values and the environment\<close>

text \<open>The field \<open>text\<close> of a content item is called \<open>text'\<close>; an omitted \<open>isError\<close> is \<open>None\<close>.\<close>

record ContentItem =
  type :: string
  text' :: string

record ToolResult =
  content :: "ContentItem list"
  isError :: "bool option"

text \<open>An issue of a \<open>ZodError\<close>: where in the body, and zod's message for it.\<close>

record ZodIssue =
  path :: "string list"
  message :: string

text \<open>
  What a \<open>catch\<close> can receive, in the order in which the handler tests it: a
  \<open>z.ZodError\<close> with its issues, any other \<open>Error\<close> with its message, anything else.
\<close>

datatype thrown = ZodError "ZodIssue list" | Error string | NonError

text \<open>
  The value that \<open>response.json()\<close> resolves to, seen through \<open>UserDataSchema.parse\<close>:
  either it conforms and yields the validated record, or it violates the schema and zod
  reports issues.
\<close>

datatype rawData = Conforming UserData | Violating "ZodIssue list"

definition UserDataSchema_parse :: "rawData \<Rightarrow> thrown + UserData" where
  "UserDataSchema_parse rawData =
     (case rawData of Conforming userData \<Rightarrow> Inr userData
      | Violating errors \<Rightarrow> Inl (ZodError errors))"

text \<open>A response: its status, its status text, and what \<open>response.json()\<close> does.\<close>

record Response =
  status :: nat
  statusText :: string
  json :: "thrown + rawData"

definition ok :: "Response \<Rightarrow> bool" where
  "ok response = (200 \<le> status response \<and> status response \<le> 299)"

datatype fetch_outcome = FetchThrows thrown | Responds Response

text \<open>The observable effects of an invocation, in order.\<close>

datatype event = Fetch string | Wait nat

subsection \<open>The handler\<close>

text \<open>How one iteration of the loop ends: with a \<open>return\<close>, or by going on to the next one.\<close>

datatype step = Return ToolResult | Continue

definition error_result :: "string \<Rightarrow> ToolResult" where
  "error_result t = \<lparr>content = [\<lparr>type = ''text'', text' = t\<rparr>], isError = Some True\<rparr>"

definition success_result :: "string \<Rightarrow> ToolResult" where
  "success_result t = \<lparr>content = [\<lparr>type = ''text'', text' = t\<rparr>], isError = None\<rparr>"

definition users_url :: "(nat \<Rightarrow> string) \<Rightarrow> nat \<Rightarrow> string" where
  "users_url toString userId = ''https://jsonplaceholder.typicode.com/users/'' @ template_number toString userId"

text \<open>The \<open>try\<close> block of one iteration: \<open>Inl\<close> is a value thrown out of it.\<close>

definition try_block ::
  "(nat \<Rightarrow> string) \<Rightarrow> nat \<Rightarrow> (nat \<Rightarrow> fetch_outcome) \<Rightarrow> nat \<Rightarrow> event list \<Rightarrow> (thrown + step) \<times> event list" where
  "try_block toString userId env attempt trace =
     (let trace1 = trace @ [Fetch (users_url toString userId)] in
      case env attempt of
        FetchThrows error \<Rightarrow> (Inl error, trace1)
      | Responds response \<Rightarrow>
          if status response = 404 then
            (Inr (Return (error_result
               (''User with ID '' @ template_number toString userId @ '' not found''))), trace1)
          else if status response = 429 then
            (if attempt = MAX_RETRIES - 1 then
               (Inr (Return (error_result ''Rate limit exceeded. Please try again later.'')), trace1)
             else (Inr Continue, trace1 @ [Wait (getRetryDelay attempt)]))
          else if \<not> ok response then
            (Inl (Error (''HTTP '' @ String_number (status response) @ '': '' @
                         statusText response)), trace1)
          else
            (case json response of
               Inl error \<Rightarrow> (Inl error, trace1)
             | Inr rawData \<Rightarrow>
                 (case UserDataSchema_parse rawData of
                    Inl error \<Rightarrow> (Inl error, trace1)
                  | Inr userData \<Rightarrow>
                      (Inr (Return (success_result (formatUserData userData))), trace1))))"

text \<open>The \<open>catch\<close> block.\<close>

definition catch_block :: "thrown \<Rightarrow> nat \<Rightarrow> event list \<Rightarrow> step \<times> event list" where
  "catch_block error attempt trace =
     (if attempt = MAX_RETRIES - 1 then
        (case error of
           ZodError errors \<Rightarrow>
             (Return (error_result
                (''Invalid API response format: '' @ join '', '' (map message errors))), trace)
         | Error msg \<Rightarrow>
             (Return (error_result (''Failed to fetch user data: '' @ msg)), trace)
         | NonError \<Rightarrow>
             (Return (error_result ''An unknown error occurred while fetching user data''), trace))
      else (Continue, trace @ [Wait (getRetryDelay attempt)]))"

definition iteration ::
  "(nat \<Rightarrow> string) \<Rightarrow> nat \<Rightarrow> (nat \<Rightarrow> fetch_outcome) \<Rightarrow> nat \<Rightarrow> event list \<Rightarrow> step \<times> event list" where
  "iteration toString userId env attempt trace =
     (case try_block toString userId env attempt trace of
        (Inl error, trace') \<Rightarrow> catch_block error attempt trace'
      | (Inr s, trace') \<Rightarrow> (s, trace'))"

text \<open>
  A finished invocation: the result, the iteration that returned it (\<open>None\<close> when the
  loop was left without a \<open>return\<close>), and the trace.
\<close>

record run =
  result :: ToolResult
  returned_at :: "nat option"
  events :: "event list"

definition exhausted_result :: ToolResult where
  "exhausted_result = error_result ''Failed to fetch user data after all retry attempts''"

function retry_loop ::
  "(nat \<Rightarrow> string) \<Rightarrow> nat \<Rightarrow> (nat \<Rightarrow> fetch_outcome) \<Rightarrow> nat \<Rightarrow> event list \<Rightarrow> run" where
  "retry_loop toString userId env attempt trace =
     (if attempt < MAX_RETRIES then
        (case iteration toString userId env attempt trace of
           (Return r, trace') \<Rightarrow> \<lparr>result = r, returned_at = Some attempt, events = trace'\<rparr>
         | (Continue, trace') \<Rightarrow> retry_loop toString userId env (attempt + 1) trace')
      else \<lparr>result = exhausted_result, returned_at = None, events = trace\<rparr>)"
  by pat_completeness auto
termination
  by (relation "measure (\<lambda>(toString, userId, env, attempt, trace). MAX_RETRIES - attempt)") auto

definition fetch_user :: "(nat \<Rightarrow> string) \<Rightarrow> nat \<Rightarrow> (nat \<Rightarrow> fetch_outcome) \<Rightarrow> run" where
  "fetch_user toString userId env = retry_loop toString userId env 0 []"

definition calls :: "run \<Rightarrow> nat" where
  "calls r = length [u. Fetch u \<leftarrow> events r]"

definition waits :: "run \<Rightarrow> nat list" where
  "waits r = [d. Wait d \<leftarrow> events r]"

text \<open>The attempt that returned was a response with a success status and a conforming body.\<close>

definition succeeds :: "fetch_outcome \<Rightarrow> bool" where
  "succeeds outcome =
     (case outcome of
        FetchThrows error \<Rightarrow> False
      | Responds response \<Rightarrow>
          ok response \<and> (case json response of Inr (Conforming userData) \<Rightarrow> True | _ \<Rightarrow> False))"

text \<open>
  What the \<open>try\<close> block of an attempt comes to and how the iteration ends, both without
  the log; an attempt is retried when its iteration goes on to the next one.
\<close>

definition attempt_outcome ::
  "(nat \<Rightarrow> string) \<Rightarrow> nat \<Rightarrow> (nat \<Rightarrow> fetch_outcome) \<Rightarrow> nat \<Rightarrow> thrown + step" where
  "attempt_outcome toString userId env attempt = fst (try_block toString userId env attempt [])"

definition attempt_step ::
  "(nat \<Rightarrow> string) \<Rightarrow> nat \<Rightarrow> (nat \<Rightarrow> fetch_outcome) \<Rightarrow> nat \<Rightarrow> step" where
  "attempt_step toString userId env attempt = fst (iteration toString userId env attempt [])"

definition retries ::
  "(nat \<Rightarrow> string) \<Rightarrow> nat \<Rightarrow> (nat \<Rightarrow> fetch_outcome) \<Rightarrow> nat \<Rightarrow> bool" where
  "retries toString userId env attempt = (attempt_step toString userId env attempt = Continue)"

text \<open>
  The log of an invocation that returns in iteration \<open>k\<close>: a call and a wait of
  \<open>getRetryDelay i\<close> for every earlier iteration \<open>i\<close>, and a last call.
\<close>

definition retry_trace :: "(nat \<Rightarrow> string) \<Rightarrow> nat \<Rightarrow> nat \<Rightarrow> nat \<Rightarrow> event list" where
  "retry_trace toString userId attempt k =
     concat (map (\<lambda>i. [Fetch (users_url toString userId), Wait (getRetryDelay i)]) [attempt..<k]) @
     [Fetch (users_url toString userId)]"

definition the_text :: "run \<Rightarrow> string" where
  "the_text r = concat (map text' (content (result r)))"

subsection \<open>Sample records and environments\<close>

text \<open>
  The part of a runtime's conversion that the samples use: the number \<open>10^21\<close>, the
  only one above \<open>MAX_SAFE_INTEGER\<close> that they print, is printed as \<open>1e+21\<close>.
\<close>

definition sample_toString :: "nat \<Rightarrow> string" where
  "sample_toString n = ''1e+21''"

definition sample_user :: UserData where
  "sample_user =
     \<lparr>user_id = 1, name = ''Leanne Graham'', username = ''Bret'',
      email = ''Sincere@april.biz'',
      address = \<lparr>street = ''Kulas Light'', suite = ''Apt. 556'', city = ''Gwenborough'',
                 zipcode = ''92998-3874''\<rparr>,
      phone = ''1-770-736-8031'', website = ''https://hildegard.org'',
      company = \<lparr>company_name = ''Romaguera-Crona'',
                 catchPhrase = ''Multi-layered client-server neural-net'',
                 bs = ''harness real-time e-markets''\<rparr>\<rparr>"


definition respond :: "nat \<Rightarrow> string \<Rightarrow> thrown + rawData \<Rightarrow> fetch_outcome" where
  "respond s t j = Responds \<lparr>status = s, statusText = t, json = j\<rparr>"

definition env_rate_limited_twice :: "nat \<Rightarrow> fetch_outcome" where
  "env_rate_limited_twice attempt =
     (if attempt < 2 then respond 429 ''Too Many Requests'' (Inl (Error ''Unexpected end of JSON input''))
      else respond 200 ''OK'' (Inr (Conforming sample_user)))"

definition env_always_rate_limited :: "nat \<Rightarrow> fetch_outcome" where
  "env_always_rate_limited attempt =
     respond 429 ''Too Many Requests'' (Inl (Error ''Unexpected end of JSON input''))"

definition env_not_found :: "nat \<Rightarrow> fetch_outcome" where
  "env_not_found attempt =
     respond 404 ''Not Found'' (Inr (Violating [\<lparr>path = [''id''], message = ''Required''\<rparr>]))"


text \<open>
  A body without \<open>email\<close>: zod reports one issue, at the path \<open>email\<close>, with the
  message \<open>Required\<close>.
\<close>

definition env_missing_email :: "nat \<Rightarrow> fetch_outcome" where
  "env_missing_email attempt =
     respond 200 ''OK'' (Inr (Violating [\<lparr>path = [''email''], message = ''Required''\<rparr>]))"

text \<open>
  A response with a success status whose body is an HTML page: \<open>response.json()\<close>
  fails with the parser's \<open>SyntaxError\<close>.
\<close>

definition env_html_body :: "nat \<Rightarrow> fetch_outcome" where
  "env_html_body attempt =
     respond 200 ''OK'' (Inl (Error ''Unexpected token < in JSON at position 0''))"

definition env_server_error :: "nat \<Rightarrow> fetch_outcome" where
  "env_server_error attempt =
     respond 500 ''Internal Server Error'' (Inl (Error ''Unexpected token < in JSON at position 0''))"

section \<open>The \<open>calculate_sum\<close> tool of \<open>src/examples/calculator.ts\<close>\<close>







section \<open>Properties\<close>

declare retry_loop.simps [simp del]
declare String_number.simps [simp del]

lemma template_number_safe:
  "n \<le> MAX_SAFE_INTEGER \<Longrightarrow> template_number toString n = String_number n"
  by (simp add: template_number_def)

lemma sample_ids:
  "template_number toString 1 = ''1''" "template_number toString (Suc 0) = ''1''"
  "template_number toString 3 = ''3''" "template_number toString 7 = ''7''"
  by (simp_all add: template_number_def MAX_SAFE_INTEGER_def String_number.simps)

subsection \<open>The loop, one iteration at a time\<close>

lemma retry_loop_return:
  "iteration toString userId env attempt trace = (Return r, trace') \<Longrightarrow> attempt < MAX_RETRIES \<Longrightarrow>
   retry_loop toString userId env attempt trace = \<lparr>result = r, returned_at = Some attempt, events = trace'\<rparr>"
  by (subst retry_loop.simps) simp

lemma retry_loop_continue:
  "iteration toString userId env attempt trace = (Continue, trace') \<Longrightarrow> attempt < MAX_RETRIES \<Longrightarrow>
   retry_loop toString userId env attempt trace = retry_loop toString userId env (attempt + 1) trace'"
  by (subst retry_loop.simps) simp

lemma try_block_trace:
  "try_block toString userId env attempt trace =
     (attempt_outcome toString userId env attempt,
      trace @ Fetch (users_url toString userId) #
        (if attempt_outcome toString userId env attempt = Inr Continue
         then [Wait (getRetryDelay attempt)] else []))"
  by (simp add: attempt_outcome_def try_block_def Let_def
      split: fetch_outcome.split sum.split)

lemma attempt_step_cases:
  "attempt_step toString userId env attempt =
     (case attempt_outcome toString userId env attempt of
        Inr s \<Rightarrow> s
      | Inl error \<Rightarrow> fst (catch_block error attempt []))"
  by (simp add: attempt_step_def iteration_def try_block_trace catch_block_def
      split: sum.split thrown.split)

lemma iteration_trace:
  "iteration toString userId env attempt trace =
     (attempt_step toString userId env attempt,
      trace @ Fetch (users_url toString userId) #
        (if attempt_step toString userId env attempt = Continue
         then [Wait (getRetryDelay attempt)] else []))"
  by (simp add: attempt_step_def iteration_def try_block_trace catch_block_def
      split: sum.split thrown.split)

lemma last_attempt_returns:
  "attempt = MAX_RETRIES - 1 \<Longrightarrow> attempt_step toString userId env attempt \<noteq> Continue"
  by (simp add: attempt_step_cases attempt_outcome_def try_block_def catch_block_def Let_def
      split: fetch_outcome.split sum.split thrown.split)

lemma retry_loop_at:
  assumes "attempt \<le> k" and "k < MAX_RETRIES"
    and "\<And>i. attempt \<le> i \<Longrightarrow> i < k \<Longrightarrow> attempt_step toString userId env i = Continue"
    and "attempt_step toString userId env k = Return r"
  shows "retry_loop toString userId env attempt trace =
           \<lparr>result = r, returned_at = Some k, events = trace @ retry_trace toString userId attempt k\<rparr>"
  using assms
proof (induction "k - attempt" arbitrary: attempt trace)
  case 0
  then have [simp]: "attempt = k" by simp
  have "iteration toString userId env k trace = (Return r, trace @ [Fetch (users_url toString userId)])"
    using "0.prems"(4) by (simp add: iteration_trace)
  then show ?case
    using "0.prems"(2) by (simp add: retry_loop_return retry_trace_def)
next
  case (Suc n)
  then have less: "attempt < k" by simp
  then have c: "attempt_step toString userId env attempt = Continue"
    using Suc.prems(3) by simp
  have it: "iteration toString userId env attempt trace =
      (Continue, trace @ [Fetch (users_url toString userId), Wait (getRetryDelay attempt)])"
    using c by (simp add: iteration_trace)
  have "retry_loop toString userId env attempt trace =
      retry_loop toString userId env (attempt + 1)
        (trace @ [Fetch (users_url toString userId), Wait (getRetryDelay attempt)])"
    using it less Suc.prems(2) by (simp add: retry_loop_continue)
  also have "\<dots> = \<lparr>result = r, returned_at = Some k,
      events = (trace @ [Fetch (users_url toString userId), Wait (getRetryDelay attempt)]) @
        retry_trace toString userId (attempt + 1) k\<rparr>"
  proof (rule Suc.hyps(1))
    show "n = k - (attempt + 1)" using Suc.hyps(2) by simp
    show "attempt + 1 \<le> k" using less by simp
    show "k < MAX_RETRIES" by (rule Suc.prems(2))
    show "attempt_step toString userId env i = Continue" if "attempt + 1 \<le> i" and "i < k" for i
      using that Suc.prems(3) [of i] by simp
    show "attempt_step toString userId env k = Return r" by (rule Suc.prems(4))
  qed
  also have "(trace @ [Fetch (users_url toString userId), Wait (getRetryDelay attempt)]) @
        retry_trace toString userId (attempt + 1) k = trace @ retry_trace toString userId attempt k"
    using less by (simp add: retry_trace_def upt_conv_Cons)
  finally show ?case .
qed

lemma fetch_user_at:
  assumes "k < MAX_RETRIES"
    and "\<And>i. i < k \<Longrightarrow> attempt_step toString userId env i = Continue"
    and "attempt_step toString userId env k = Return r"
  shows "fetch_user toString userId env =
           \<lparr>result = r, returned_at = Some k, events = retry_trace toString userId 0 k\<rparr>"
  unfolding fetch_user_def
  using retry_loop_at [of 0 k toString userId env r "[]"] assms by simp

lemma fetch_user_returns:
  "\<exists>k r. k < MAX_RETRIES \<and> (\<forall>i<k. attempt_step toString userId env i = Continue) \<and>
     attempt_step toString userId env k = Return r \<and>
     fetch_user toString userId env =
       \<lparr>result = r, returned_at = Some k, events = retry_trace toString userId 0 k\<rparr>"
proof -
  define k where "k = (LEAST i. attempt_step toString userId env i \<noteq> Continue)"
  have last: "attempt_step toString userId env (MAX_RETRIES - 1) \<noteq> Continue"
    by (simp add: last_attempt_returns)
  then have k: "attempt_step toString userId env k \<noteq> Continue"
    unfolding k_def by (rule LeastI)
  have "k \<le> MAX_RETRIES - 1"
    unfolding k_def using last by (rule Least_le)
  then have bound: "k < MAX_RETRIES" by (simp add: MAX_RETRIES_def)
  have before: "attempt_step toString userId env i = Continue" if "i < k" for i
    using that not_less_Least [of i "\<lambda>i. attempt_step toString userId env i \<noteq> Continue"]
    unfolding k_def by auto
  obtain r where r: "attempt_step toString userId env k = Return r"
    using k by (cases "attempt_step toString userId env k") auto
  show ?thesis
    using bound before r fetch_user_at [of k toString userId env r] by blast
qed

lemma retry_trace_values:
  "retry_trace toString userId 0 0 = [Fetch (users_url toString userId)]"
  "retry_trace toString userId 0 1 =
     [Fetch (users_url toString userId), Wait (getRetryDelay 0), Fetch (users_url toString userId)]"
  "retry_trace toString userId 0 2 =
     [Fetch (users_url toString userId), Wait (getRetryDelay 0),
      Fetch (users_url toString userId), Wait (getRetryDelay 1), Fetch (users_url toString userId)]"
  by (simp_all add: retry_trace_def upt_rec numeral_2_eq_2)

lemma calls_retry_trace:
  "length [u. Fetch u \<leftarrow> retry_trace toString userId attempt k] = Suc (k - attempt)"
  by (induction k) (auto simp: retry_trace_def Suc_diff_le)

lemma waits_retry_trace:
  "[d. Wait d \<leftarrow> retry_trace toString userId attempt k] = map getRetryDelay [attempt..<k]"
  by (induction k) (simp_all add: retry_trace_def)


subsection \<open>The formatted text\<close>

lemma formatUserData_layout:
  "formatUserData userData =
     ''User Profile:'' @
     ''\<newline>  Name: '' @ name userData @
     ''\<newline>  Username: '' @ username userData @
     ''\<newline>  Email: '' @ email userData @
     ''\<newline>  Address: '' @ street (address userData) @ '', '' @ suite (address userData) @
     ''\<newline>           '' @ city (address userData) @ '', '' @ zipcode (address userData) @
     ''\<newline>  Phone: '' @ phone userData @
     ''\<newline>  Website: '' @ website userData @
     ''\<newline>  Company: '' @ company_name (company userData) @
     ''\<newline>          '' @ [CHR 0x22] @ catchPhrase (company userData) @ [CHR 0x22]"
  by (simp add: formatUserData_def trim_def is_whitespace_def)



lemma occurrences_sublist: "sublist p t \<longleftrightarrow> 1 \<le> occurrences p t"
proof (induction t)
  case Nil
  show ?case by simp
next
  case (Cons c cs)
  show ?case using Cons.IH by (auto simp: sublist_Cons_right)
qed


subsection \<open>Backoff\<close>

lemma getRetryDelay_values:
  "getRetryDelay 0 = 1000" "getRetryDelay 1 = 2000" "getRetryDelay 2 = 4000"
  by (simp_all add: getRetryDelay_def INITIAL_RETRY_DELAY_def)

text \<open>
  Claim C4. The delay before the retry after attempt \<open>attempt\<close> (counted from zero) is
  \<open>INITIAL_RETRY_DELAY * 2 ^ attempt\<close> with \<open>INITIAL_RETRY_DELAY = 1000\<close> milliseconds:
  1000, 2000 and 4000 for the attempts 0, 1 and 2, and strictly increasing.
\<close>

theorem getRetryDelay_backoff:
  "INITIAL_RETRY_DELAY = 1000 \<and>
   getRetryDelay attempt = INITIAL_RETRY_DELAY * 2 ^ attempt \<and>
   getRetryDelay 0 = 1000 \<and> getRetryDelay 1 = 2000 \<and> getRetryDelay 2 = 4000 \<and>
   getRetryDelay 0 < getRetryDelay 1 \<and> getRetryDelay 1 < getRetryDelay 2 \<and>
   getRetryDelay attempt < getRetryDelay (Suc attempt)"
  by (simp add: getRetryDelay_def INITIAL_RETRY_DELAY_def)

subsection \<open>One attempt, by the class of its outcome\<close>

lemma ok_status: "ok response \<Longrightarrow> status response \<noteq> 404 \<and> status response \<noteq> 429"
  by (auto simp: ok_def)

lemma outcome_fetch_throws:
  "env attempt = FetchThrows error \<Longrightarrow> attempt_outcome toString userId env attempt = Inl error"
  by (simp add: attempt_outcome_def try_block_def)

lemma outcome_not_found:
  "env attempt = Responds response \<Longrightarrow> status response = 404 \<Longrightarrow>
   attempt_outcome toString userId env attempt =
     Inr (Return (error_result (''User with ID '' @ template_number toString userId @ '' not found'')))"
  by (simp add: attempt_outcome_def try_block_def)

lemma outcome_rate_limited:
  "env attempt = Responds response \<Longrightarrow> status response = 429 \<Longrightarrow>
   attempt_outcome toString userId env attempt =
     (if attempt = MAX_RETRIES - 1
      then Inr (Return (error_result ''Rate limit exceeded. Please try again later.''))
      else Inr Continue)"
  by (simp add: attempt_outcome_def try_block_def)

lemma outcome_status_failure:
  "env attempt = Responds response \<Longrightarrow> status response \<noteq> 404 \<Longrightarrow>
   status response \<noteq> 429 \<Longrightarrow> \<not> ok response \<Longrightarrow>
   attempt_outcome toString userId env attempt =
     Inl (Error (''HTTP '' @ String_number (status response) @ '': '' @ statusText response))"
  by (simp add: attempt_outcome_def try_block_def)

lemma outcome_json_throws:
  "env attempt = Responds response \<Longrightarrow> ok response \<Longrightarrow> json response = Inl error \<Longrightarrow>
   attempt_outcome toString userId env attempt = Inl error"
  using ok_status [of response] by (simp add: attempt_outcome_def try_block_def)

lemma outcome_violating:
  "env attempt = Responds response \<Longrightarrow> ok response \<Longrightarrow>
   json response = Inr (Violating errors) \<Longrightarrow>
   attempt_outcome toString userId env attempt = Inl (ZodError errors)"
  using ok_status [of response]
  by (simp add: attempt_outcome_def try_block_def UserDataSchema_parse_def)

lemma outcome_conforming:
  "env attempt = Responds response \<Longrightarrow> ok response \<Longrightarrow>
   json response = Inr (Conforming userData) \<Longrightarrow>
   attempt_outcome toString userId env attempt = Inr (Return (success_result (formatUserData userData)))"
  using ok_status [of response]
  by (simp add: attempt_outcome_def try_block_def UserDataSchema_parse_def)

lemma step_thrown:
  "attempt_outcome toString userId env attempt = Inl error \<Longrightarrow>
   attempt_step toString userId env attempt =
     (if attempt = MAX_RETRIES - 1 then
        Return (error_result
          (case error of
             ZodError errors \<Rightarrow> ''Invalid API response format: '' @ join '', '' (map message errors)
           | Error msg \<Rightarrow> ''Failed to fetch user data: '' @ msg
           | NonError \<Rightarrow> ''An unknown error occurred while fetching user data''))
      else Continue)"
  by (simp add: attempt_step_cases catch_block_def split: thrown.split)

lemma step_returned:
  "attempt_outcome toString userId env attempt = Inr s \<Longrightarrow> attempt_step toString userId env attempt = s"
  by (simp add: attempt_step_cases)

lemma fetch_user_calls_waits:
  "returned_at (fetch_user toString userId env) = Some k \<Longrightarrow>
   calls (fetch_user toString userId env) = k + 1 \<and>
   waits (fetch_user toString userId env) = map getRetryDelay [0..<k]"
  using fetch_user_returns [of toString userId env]
  by (auto simp: calls_def waits_def calls_retry_trace waits_retry_trace)

subsection \<open>Rate limiting\<close>

text \<open>
  Claim C1. With \<open>MAX_RETRIES = 3\<close>: when the resource answers 429 to the first and to
  the second attempt and answers the third with a success status and a body that
  validates, the lookup makes exactly three network calls, waits \<open>getRetryDelay 0\<close>
  after the first and \<open>getRetryDelay 1\<close> after the second, and returns the success
  result: the formatted record, with \<open>isError\<close> omitted.
\<close>

theorem fetch_user_rate_limited_twice_then_success:
  assumes "env 0 = Responds r0" and "status r0 = 429"
    and "env 1 = Responds r1" and "status r1 = 429"
    and "env 2 = Responds r2" and "ok r2" and "json r2 = Inr (Conforming userData)"
  shows "MAX_RETRIES = 3 \<and>
         events (fetch_user toString userId env) =
           [Fetch (users_url toString userId), Wait (getRetryDelay 0),
            Fetch (users_url toString userId), Wait (getRetryDelay 1),
            Fetch (users_url toString userId)] \<and>
         calls (fetch_user toString userId env) = 3 \<and>
         waits (fetch_user toString userId env) = [getRetryDelay 0, getRetryDelay 1] \<and>
         returned_at (fetch_user toString userId env) = Some 2 \<and>
         result (fetch_user toString userId env) =
           \<lparr>content = [\<lparr>type = ''text'', text' = formatUserData userData\<rparr>], isError = None\<rparr>"
proof -
  have s0: "attempt_step toString userId env 0 = Continue"
    using assms(1,2) by (simp add: step_returned outcome_rate_limited MAX_RETRIES_def)
  have s1: "attempt_step toString userId env 1 = Continue"
    using assms(3,4) by (simp add: step_returned outcome_rate_limited MAX_RETRIES_def)
  have s2: "attempt_step toString userId env 2 = Return (success_result (formatUserData userData))"
    using assms(5,6,7) by (simp add: step_returned outcome_conforming)
  have before: "attempt_step toString userId env i = Continue" if "i < 2" for i
    using that s0 s1 by (cases i) simp_all
  have "fetch_user toString userId env =
      \<lparr>result = success_result (formatUserData userData), returned_at = Some 2,
       events = retry_trace toString userId 0 2\<rparr>"
    using before s2 by (intro fetch_user_at) (simp_all add: MAX_RETRIES_def)
  then show ?thesis
    by (simp add: retry_trace_values calls_def waits_def success_result_def MAX_RETRIES_def)
qed

theorem fetch_user_rate_limited_twice_then_success_witness:
  "events (fetch_user sample_toString 7 env_rate_limited_twice) =
     [Fetch ''https://jsonplaceholder.typicode.com/users/7'', Wait 1000,
      Fetch ''https://jsonplaceholder.typicode.com/users/7'', Wait 2000,
      Fetch ''https://jsonplaceholder.typicode.com/users/7''] \<and>
   calls (fetch_user sample_toString 7 env_rate_limited_twice) = 3 \<and>
   waits (fetch_user sample_toString 7 env_rate_limited_twice) = [1000, 2000] \<and>
   result (fetch_user sample_toString 7 env_rate_limited_twice) =
     \<lparr>content = [\<lparr>type = ''text'', text' = formatUserData sample_user\<rparr>], isError = None\<rparr>"
  using fetch_user_rate_limited_twice_then_success
    [of env_rate_limited_twice
      "\<lparr>status = 429, statusText = ''Too Many Requests'',
        json = Inl (Error ''Unexpected end of JSON input'')\<rparr>"
      "\<lparr>status = 429, statusText = ''Too Many Requests'',
        json = Inl (Error ''Unexpected end of JSON input'')\<rparr>"
      "\<lparr>status = 200, statusText = ''OK'', json = Inr (Conforming sample_user)\<rparr>"
      sample_user sample_toString 7]
  by (simp add: env_rate_limited_twice_def respond_def ok_def getRetryDelay_def
      INITIAL_RETRY_DELAY_def users_url_def sample_ids)

subsection \<open>Returning in the first or in the last iteration\<close>

lemma before_two:
  "attempt_step toString userId env 0 = Continue \<Longrightarrow> attempt_step toString userId env 1 = Continue \<Longrightarrow>
   i < 2 \<Longrightarrow> attempt_step toString userId env i = Continue"
  by (cases i) simp_all

lemma fetch_user_first:
  "attempt_step toString userId env 0 = Return r \<Longrightarrow>
   fetch_user toString userId env =
     \<lparr>result = r, returned_at = Some 0, events = [Fetch (users_url toString userId)]\<rparr>"
  using fetch_user_at [of 0 toString userId env r]
  by (simp add: MAX_RETRIES_def retry_trace_values)

lemma fetch_user_third:
  "attempt_step toString userId env 0 = Continue \<Longrightarrow> attempt_step toString userId env 1 = Continue \<Longrightarrow>
   attempt_step toString userId env 2 = Return r \<Longrightarrow>
   fetch_user toString userId env =
     \<lparr>result = r, returned_at = Some 2,
      events = [Fetch (users_url toString userId), Wait (getRetryDelay 0),
                Fetch (users_url toString userId), Wait (getRetryDelay 1),
                Fetch (users_url toString userId)]\<rparr>"
  using fetch_user_at [of 2 toString userId env r] before_two [of toString userId env]
  by (simp add: MAX_RETRIES_def retry_trace_values)

subsection \<open>Not found\<close>

text \<open>
  Claim C2. For every request identifier, whatever the runtime prints for an identifier
  above \<open>MAX_SAFE_INTEGER\<close>: when the resource reports the record as absent (status
  404), the lookup ends after exactly one network call, without any wait or retry, and
  returns a result with \<open>isError = true\<close> whose text is
  \<open>User with ID <identifier> not found\<close>: it contains the identifier as the template
  literal prints it and says that it was not found.
\<close>

theorem fetch_user_not_found:
  assumes "env 0 = Responds response" and "status response = 404"
  shows "events (fetch_user toString userId env) = [Fetch (users_url toString userId)] \<and>
         calls (fetch_user toString userId env) = 1 \<and>
         waits (fetch_user toString userId env) = [] \<and>
         returned_at (fetch_user toString userId env) = Some 0 \<and>
         result (fetch_user toString userId env) =
           \<lparr>content = [\<lparr>type = ''text'',
                         text' = ''User with ID '' @ template_number toString userId @
                                 '' not found''\<rparr>],
            isError = Some True\<rparr> \<and>
         sublist (template_number toString userId) (the_text (fetch_user toString userId env)) \<and>
         sublist ''not found'' (the_text (fetch_user toString userId env))"
proof -
  have "attempt_step toString userId env 0 =
      Return (error_result (''User with ID '' @ template_number toString userId @ '' not found''))"
    using assms(1,2) by (simp add: step_returned outcome_not_found)
  then have run: "fetch_user toString userId env =
      \<lparr>result = error_result
         (''User with ID '' @ template_number toString userId @ '' not found''),
       returned_at = Some 0, events = [Fetch (users_url toString userId)]\<rparr>"
    by (rule fetch_user_first)
  have "sublist (template_number toString userId)
      (''User with ID '' @ template_number toString userId @ '' not found'')"
    by (rule sublist_appendI)
  moreover have "sublist ''not found''
      ((''User with ID '' @ template_number toString userId @ '' '') @ ''not found'' @ [])"
    by (rule sublist_appendI)
  ultimately show ?thesis
    by (simp add: run calls_def waits_def error_result_def the_text_def)
qed

text \<open>
  Two identifiers: 4711, a safe integer, and \<open>10^21\<close>, which the schema admits as well
  and which the runtime prints as \<open>1e+21\<close>.
\<close>

theorem fetch_user_not_found_witness:
  "events (fetch_user sample_toString 4711 env_not_found) =
     [Fetch ''https://jsonplaceholder.typicode.com/users/4711''] \<and>
   calls (fetch_user sample_toString 4711 env_not_found) = 1 \<and>
   result (fetch_user sample_toString 4711 env_not_found) =
     \<lparr>content = [\<lparr>type = ''text'', text' = ''User with ID 4711 not found''\<rparr>],
      isError = Some True\<rparr> \<and>
   events (fetch_user sample_toString (10 ^ 21) env_not_found) =
     [Fetch ''https://jsonplaceholder.typicode.com/users/1e+21''] \<and>
   result (fetch_user sample_toString (10 ^ 21) env_not_found) =
     \<lparr>content = [\<lparr>type = ''text'', text' = ''User with ID 1e+21 not found''\<rparr>],
      isError = Some True\<rparr>"
proof -
  have small: "template_number sample_toString 4711 = ''4711''"
    by (simp add: template_number_def MAX_SAFE_INTEGER_def String_number.simps)
  have large: "template_number sample_toString 1000000000000000000000 = ''1e+21''"
    by (simp add: template_number_def MAX_SAFE_INTEGER_def sample_toString_def)
  have env: "env_not_found 0 =
      Responds \<lparr>status = 404, statusText = ''Not Found'',
        json = Inr (Violating [\<lparr>path = [''id''], message = ''Required''\<rparr>])\<rparr>"
    by (simp add: env_not_found_def respond_def)
  show ?thesis
    using fetch_user_not_found
        [where env = env_not_found and toString = sample_toString and userId = 4711, OF env]
      fetch_user_not_found
        [where env = env_not_found and toString = sample_toString and userId = "10 ^ 21", OF env]
    by (simp add: users_url_def small large)
qed

subsection \<open>Rate limiting on every attempt\<close>

text \<open>
  Claim C3. When the resource answers 429 to all three attempts, the lookup makes exactly
  three network calls and returns a result with \<open>isError = true\<close> and the text
  \<open>Rate limit exceeded. Please try again later.\<close>, never a success.
\<close>

theorem fetch_user_rate_limit_exhausted:
  assumes "\<And>attempt. attempt < MAX_RETRIES \<Longrightarrow>
             \<exists>response. env attempt = Responds response \<and> status response = 429"
  shows "events (fetch_user toString userId env) =
           [Fetch (users_url toString userId), Wait (getRetryDelay 0),
            Fetch (users_url toString userId), Wait (getRetryDelay 1),
            Fetch (users_url toString userId)] \<and>
         calls (fetch_user toString userId env) = 3 \<and>
         returned_at (fetch_user toString userId env) = Some 2 \<and>
         result (fetch_user toString userId env) =
           \<lparr>content = [\<lparr>type = ''text'',
                         text' = ''Rate limit exceeded. Please try again later.''\<rparr>],
            isError = Some True\<rparr> \<and>
         isError (result (fetch_user toString userId env)) \<noteq> None"
proof -
  have step: "attempt_step toString userId env attempt =
      (if attempt = MAX_RETRIES - 1
       then Return (error_result ''Rate limit exceeded. Please try again later.'')
       else Continue)" if "attempt < MAX_RETRIES" for attempt
    using assms [OF that] by (auto simp: step_returned outcome_rate_limited)
  have "fetch_user toString userId env =
      \<lparr>result = error_result ''Rate limit exceeded. Please try again later.'',
       returned_at = Some 2,
       events = [Fetch (users_url toString userId), Wait (getRetryDelay 0),
                 Fetch (users_url toString userId), Wait (getRetryDelay 1),
                 Fetch (users_url toString userId)]\<rparr>"
    using step [of 0] step [of 1] step [of 2]
    by (intro fetch_user_third) (simp_all add: MAX_RETRIES_def)
  then show ?thesis
    by (simp add: calls_def error_result_def)
qed

theorem fetch_user_rate_limit_exhausted_witness:
  "events (fetch_user sample_toString 3 env_always_rate_limited) =
     [Fetch ''https://jsonplaceholder.typicode.com/users/3'', Wait 1000,
      Fetch ''https://jsonplaceholder.typicode.com/users/3'', Wait 2000,
      Fetch ''https://jsonplaceholder.typicode.com/users/3''] \<and>
   calls (fetch_user sample_toString 3 env_always_rate_limited) = 3 \<and>
   result (fetch_user sample_toString 3 env_always_rate_limited) =
     \<lparr>content = [\<lparr>type = ''text'', text' = ''Rate limit exceeded. Please try again later.''\<rparr>],
      isError = Some True\<rparr>"
  using fetch_user_rate_limit_exhausted [of env_always_rate_limited sample_toString 3]
  by (simp add: env_always_rate_limited_def respond_def getRetryDelay_def
      INITIAL_RETRY_DELAY_def users_url_def sample_ids)

subsection \<open>Success on the first attempt\<close>




subsection \<open>A body that fails validation on every attempt\<close>

text \<open>
  Claim C6, as amended. When every attempt yields a response with a success status whose
  body fails the validation, the lookup waits \<open>getRetryDelay 0\<close> after the first attempt
  and \<open>getRetryDelay 1\<close> after the second, makes all three calls, and returns
  \<open>isError = true\<close> with the text \<open>Invalid API response format: \<close> followed by the
  messages of the issues that zod reported for the third body, joined by a comma and a
  space. Only the messages are listed: the paths of the issues, which name the fields,
  are not.
\<close>

theorem fetch_user_malformed_exhausted:
  assumes "\<And>attempt. attempt < MAX_RETRIES \<Longrightarrow>
             \<exists>response errors. env attempt = Responds response \<and> ok response \<and>
               json response = Inr (Violating errors)"
    and "env 2 = Responds response" and "json response = Inr (Violating errors)"
  shows "events (fetch_user toString userId env) =
           [Fetch (users_url toString userId), Wait (getRetryDelay 0),
            Fetch (users_url toString userId), Wait (getRetryDelay 1),
            Fetch (users_url toString userId)] \<and>
         calls (fetch_user toString userId env) = 3 \<and>
         waits (fetch_user toString userId env) = [getRetryDelay 0, getRetryDelay 1] \<and>
         returned_at (fetch_user toString userId env) = Some 2 \<and>
         result (fetch_user toString userId env) =
           \<lparr>content = [\<lparr>type = ''text'',
                         text' = ''Invalid API response format: '' @
                                 join '', '' (map message errors)\<rparr>],
            isError = Some True\<rparr>"
proof -
  have thrown: "\<exists>errors. attempt_outcome toString userId env attempt = Inl (ZodError errors)"
    if "attempt < MAX_RETRIES" for attempt
    using assms(1) [OF that] by (auto simp: outcome_violating)
  have s0: "attempt_step toString userId env 0 = Continue"
    using thrown [of 0] by (auto simp: step_thrown MAX_RETRIES_def)
  have s1: "attempt_step toString userId env 1 = Continue"
    using thrown [of 1] by (auto simp: step_thrown MAX_RETRIES_def)
  have "ok response"
    using assms(1) [of 2] assms(2) by (auto simp: MAX_RETRIES_def)
  then have "attempt_outcome toString userId env 2 = Inl (ZodError errors)"
    using assms(2,3) by (simp add: outcome_violating)
  then have s2: "attempt_step toString userId env 2 =
      Return (error_result (''Invalid API response format: '' @ join '', '' (map message errors)))"
    by (simp add: step_thrown MAX_RETRIES_def)
  show ?thesis
    by (simp add: fetch_user_third [OF s0 s1 s2] calls_def waits_def error_result_def)
qed

theorem fetch_user_malformed_exhausted_witness:
  "events (fetch_user sample_toString 1 env_missing_email) =
     [Fetch ''https://jsonplaceholder.typicode.com/users/1'', Wait 1000,
      Fetch ''https://jsonplaceholder.typicode.com/users/1'', Wait 2000,
      Fetch ''https://jsonplaceholder.typicode.com/users/1''] \<and>
   result (fetch_user sample_toString 1 env_missing_email) =
     \<lparr>content = [\<lparr>type = ''text'', text' = ''Invalid API response format: Required''\<rparr>],
      isError = Some True\<rparr>"
  using fetch_user_malformed_exhausted
    [of env_missing_email
      "\<lparr>status = 200, statusText = ''OK'',
        json = Inr (Violating [\<lparr>path = [''email''], message = ''Required''\<rparr>])\<rparr>"
      "[\<lparr>path = [''email''], message = ''Required''\<rparr>]" sample_toString 1]
  by (simp add: env_missing_email_def respond_def ok_def getRetryDelay_def
      INITIAL_RETRY_DELAY_def users_url_def sample_ids)

text \<open>
  For a body without \<open>email\<close> zod's issue has the path \<open>email\<close> and the message
  \<open>Required\<close>; the text that the lookup returns does not name the field.
\<close>

theorem fetch_user_missing_field_not_named:
  "result (fetch_user sample_toString 1 env_missing_email) =
     \<lparr>content = [\<lparr>type = ''text'', text' = ''Invalid API response format: Required''\<rparr>],
      isError = Some True\<rparr> \<and>
   \<not> sublist ''email'' (the_text (fetch_user sample_toString 1 env_missing_email))"
proof -
  have thrown: "attempt_outcome sample_toString 1 env_missing_email attempt =
      Inl (ZodError [\<lparr>path = [''email''], message = ''Required''\<rparr>])" for attempt
    by (simp add: outcome_violating env_missing_email_def respond_def ok_def)
  have s0: "attempt_step sample_toString 1 env_missing_email 0 = Continue"
    using step_thrown [OF thrown [of 0]] by (simp add: MAX_RETRIES_def)
  have s1: "attempt_step sample_toString 1 env_missing_email 1 = Continue"
    using step_thrown [OF thrown [of 1]] by (simp add: MAX_RETRIES_def)
  have s2: "attempt_step sample_toString 1 env_missing_email 2 =
      Return (error_result ''Invalid API response format: Required'')"
    using step_thrown [OF thrown [of 2]] by (simp add: MAX_RETRIES_def)
  have run: "result (fetch_user sample_toString 1 env_missing_email) =
      error_result ''Invalid API response format: Required''"
    using fetch_user_third [OF s0 s1 s2] by simp
  have "occurrences ''email'' ''Invalid API response format: Required'' = 0"
    by simp
  then have "\<not> sublist ''email'' ''Invalid API response format: Required''"
    by (simp add: occurrences_sublist)
  then show ?thesis
    using run by (simp add: the_text_def error_result_def)
qed

subsection \<open>A failure raised on the last attempt\<close>

text \<open>
  Claim C7, as amended. When the first two attempts are retried and the \<open>try\<close> block of
  the third, the last allowed one, raises a failure, the lookup ends there with
  \<open>isError = true\<close> and a text chosen by the class of the failure: for a validation
  failure \<open>Invalid API response format: \<close> and the issue messages joined by a comma and
  a space; for any other \<open>Error\<close> \<open>Failed to fetch user data: \<close> followed by that
  error's own message, which for a response with a failure status is
  \<open>HTTP <status>: <statusText>\<close>; and only for a thrown value that is no \<open>Error\<close> a
  fixed text that shows nothing of the failure.
\<close>

theorem fetch_user_last_attempt_failure:
  assumes "retries toString userId env 0" and "retries toString userId env 1"
    and "attempt_outcome toString userId env 2 = Inl error"
  shows "returned_at (fetch_user toString userId env) = Some 2 \<and>
         calls (fetch_user toString userId env) = 3 \<and>
         result (fetch_user toString userId env) =
           \<lparr>content = [\<lparr>type = ''text'',
                         text' =
                           (case error of
                              ZodError errors \<Rightarrow>
                                ''Invalid API response format: '' @
                                join '', '' (map message errors)
                            | Error msg \<Rightarrow> ''Failed to fetch user data: '' @ msg
                            | NonError \<Rightarrow>
                                ''An unknown error occurred while fetching user data'')\<rparr>],
            isError = Some True\<rparr> \<and>
         (\<forall>response. env 2 = Responds response \<longrightarrow> \<not> ok response \<longrightarrow>
            error = Error (''HTTP '' @ String_number (status response) @ '': '' @
                           statusText response))"
proof -
  have s2: "attempt_step toString userId env 2 =
      Return (error_result
        (case error of
           ZodError errors \<Rightarrow> ''Invalid API response format: '' @ join '', '' (map message errors)
         | Error msg \<Rightarrow> ''Failed to fetch user data: '' @ msg
         | NonError \<Rightarrow> ''An unknown error occurred while fetching user data''))"
    using step_thrown [OF assms(3)] by (simp add: MAX_RETRIES_def)
  have run: "fetch_user toString userId env =
      \<lparr>result = error_result
        (case error of
           ZodError errors \<Rightarrow> ''Invalid API response format: '' @ join '', '' (map message errors)
         | Error msg \<Rightarrow> ''Failed to fetch user data: '' @ msg
         | NonError \<Rightarrow> ''An unknown error occurred while fetching user data''),
       returned_at = Some 2,
       events = [Fetch (users_url toString userId), Wait (getRetryDelay 0),
                 Fetch (users_url toString userId), Wait (getRetryDelay 1),
                 Fetch (users_url toString userId)]\<rparr>"
    using assms(1,2) s2 unfolding retries_def by (rule fetch_user_third)
  have status: "error = Error (''HTTP '' @ String_number (status response) @ '': '' @
      statusText response)"
    if "env 2 = Responds response" and "\<not> ok response" for response
  proof (cases "status response = 404 \<or> status response = 429")
    case True
    then have "\<exists>s. attempt_outcome toString userId env 2 = Inr s"
      using that(1) by (auto simp: outcome_not_found outcome_rate_limited)
    then show ?thesis using assms(3) by simp
  next
    case False
    then show ?thesis
      using that assms(3) outcome_status_failure [of env 2 response toString userId] by simp
  qed
  show ?thesis
    using status by (simp add: run calls_def error_result_def)
qed

theorem fetch_user_last_attempt_failure_witness:
  "returned_at (fetch_user sample_toString 1 env_server_error) = Some 2 \<and>
   calls (fetch_user sample_toString 1 env_server_error) = 3 \<and>
   result (fetch_user sample_toString 1 env_server_error) =
     \<lparr>content = [\<lparr>type = ''text'',
                   text' = ''Failed to fetch user data: HTTP 500: Internal Server Error''\<rparr>],
      isError = Some True\<rparr>"
proof -
  have digits: "String_number 500 = ''500''"
    by (simp add: String_number.simps)
  have thrown: "attempt_outcome sample_toString 1 env_server_error attempt =
      Inl (Error ''HTTP 500: Internal Server Error'')" for attempt
    using outcome_status_failure [of env_server_error attempt _ sample_toString 1]
    by (simp add: env_server_error_def respond_def ok_def digits)
  have r0: "retries sample_toString 1 env_server_error 0"
    using step_thrown [OF thrown [of 0]] by (simp add: retries_def MAX_RETRIES_def)
  have r1: "retries sample_toString 1 env_server_error 1"
    using step_thrown [OF thrown [of 1]] by (simp add: retries_def MAX_RETRIES_def)
  show ?thesis
    using fetch_user_last_attempt_failure [OF r0 r1 thrown [of 2]] by simp
qed

text \<open>
  When the body of every response is an HTML page, the text of the result ends with the
  message of the JSON parser's error.
\<close>

theorem fetch_user_reports_error_message:
  "result (fetch_user sample_toString 1 env_html_body) =
     \<lparr>content = [\<lparr>type = ''text'',
                   text' = ''Failed to fetch user data: Unexpected token < in JSON at position 0''\<rparr>],
      isError = Some True\<rparr> \<and>
   sublist ''Unexpected token < in JSON at position 0'' (the_text (fetch_user sample_toString 1 env_html_body))"
proof -
  have thrown: "attempt_outcome sample_toString 1 env_html_body attempt =
      Inl (Error ''Unexpected token < in JSON at position 0'')" for attempt
    by (simp add: outcome_json_throws env_html_body_def respond_def ok_def)
  have s0: "attempt_step sample_toString 1 env_html_body 0 = Continue"
    using step_thrown [OF thrown [of 0]] by (simp add: MAX_RETRIES_def)
  have s1: "attempt_step sample_toString 1 env_html_body 1 = Continue"
    using step_thrown [OF thrown [of 1]] by (simp add: MAX_RETRIES_def)
  have s2: "attempt_step sample_toString 1 env_html_body 2 =
      Return (error_result ''Failed to fetch user data: Unexpected token < in JSON at position 0'')"
    using step_thrown [OF thrown [of 2]] by (simp add: MAX_RETRIES_def)
  have run: "result (fetch_user sample_toString 1 env_html_body) =
      error_result ''Failed to fetch user data: Unexpected token < in JSON at position 0''"
    using fetch_user_third [OF s0 s1 s2] by simp
  have "sublist ''Unexpected token < in JSON at position 0''
      (''Failed to fetch user data: '' @ ''Unexpected token < in JSON at position 0'' @ [])"
    by (rule sublist_appendI)
  then show ?thesis
    using run by (simp add: the_text_def error_result_def)
qed

subsection \<open>Every invocation resolves to a result\<close>

lemma thrown_result:
  "attempt_outcome toString userId env attempt = Inl error \<Longrightarrow>
   attempt_step toString userId env attempt = Return r \<Longrightarrow>
   r = error_result
     (case error of
        ZodError errors \<Rightarrow> ''Invalid API response format: '' @ join '', '' (map message errors)
      | Error msg \<Rightarrow> ''Failed to fetch user data: '' @ msg
      | NonError \<Rightarrow> ''An unknown error occurred while fetching user data'')"
  by (simp add: step_thrown split: if_splits)

text \<open>
  The seven kinds of attempt, with what the \<open>try\<close> block makes of each and whether it
  counts as a success.
\<close>

lemma attempt_kinds:
  obtains
    (fetch_throws) error where "attempt_outcome toString userId env attempt = Inl error"
      and "\<not> succeeds (env attempt)"
  | (not_found) "attempt_outcome toString userId env attempt =
        Inr (Return (error_result (''User with ID '' @ template_number toString userId @ '' not found'')))"
      and "\<not> succeeds (env attempt)"
  | (rate_limited) "attempt_outcome toString userId env attempt =
        (if attempt = MAX_RETRIES - 1
         then Inr (Return (error_result ''Rate limit exceeded. Please try again later.''))
         else Inr Continue)"
      and "\<not> succeeds (env attempt)"
  | (conforming) userData where "attempt_outcome toString userId env attempt =
        Inr (Return (success_result (formatUserData userData)))"
      and "succeeds (env attempt)"
proof (cases "env attempt")
  case (FetchThrows error)
  then show ?thesis
    using fetch_throws [of error] by (simp add: outcome_fetch_throws succeeds_def)
next
  case (Responds response)
  consider "status response = 404" | "status response = 429"
    | "status response \<noteq> 404" "status response \<noteq> 429" "\<not> ok response" | "ok response"
    by blast
  then show ?thesis
  proof cases
    case 1
    then show ?thesis
      using Responds not_found by (simp add: outcome_not_found succeeds_def ok_def)
  next
    case 2
    then show ?thesis
      using Responds rate_limited by (simp add: outcome_rate_limited succeeds_def ok_def)
  next
    case 3
    then show ?thesis
      using Responds fetch_throws by (simp add: outcome_status_failure succeeds_def)
  next
    case 4
    show ?thesis
    proof (cases "json response")
      case (Inl error)
      then show ?thesis
        using Responds 4 fetch_throws [of error] by (simp add: outcome_json_throws succeeds_def)
    next
      case (Inr rawData)
      show ?thesis
      proof (cases rawData)
        case (Conforming userData)
        then show ?thesis
          using Responds 4 Inr conforming [of userData]
          by (simp add: outcome_conforming succeeds_def)
      next
        case (Violating errors)
        then show ?thesis
          using Responds 4 Inr fetch_throws [of "ZodError errors"]
          by (simp add: outcome_violating succeeds_def)
      qed
    qed
  qed
qed

lemma returned_result:
  assumes "attempt_step toString userId env attempt = Return r"
  shows "\<exists>t. r = \<lparr>content = [\<lparr>type = ''text'', text' = t\<rparr>],
                 isError = (if succeeds (env attempt) then None else Some True)\<rparr>"
proof (cases rule: attempt_kinds [of toString userId env attempt])
  case (fetch_throws error)
  then show ?thesis
    using thrown_result [OF _ assms] by (simp add: error_result_def)
next
  case not_found
  then show ?thesis
    using assms by (auto simp: step_returned error_result_def)
next
  case rate_limited
  then show ?thesis
    using assms by (auto simp: step_returned error_result_def split: if_splits)
next
  case (conforming userData)
  then show ?thesis
    using assms by (auto simp: step_returned success_result_def)
qed

text \<open>
  Claim C8. Whatever the network does on each attempt (\<open>env\<close> is arbitrary: any
  response, any value thrown by \<open>fetch\<close> or by \<open>response.json()\<close>, any validation
  failure), the handler resolves to a result: every \<open>throw\<close> lies inside the \<open>try\<close>
  block and reaches the \<open>catch\<close> block as a value, the loop ends, and \<open>fetch_user\<close>
  is a total function. The result holds exactly one content item, of type \<open>text\<close>;
  \<open>isError\<close> is omitted when the returning attempt was a success and \<open>true\<close> on every
  failure.
\<close>

theorem fetch_user_resolves:
  "\<exists>k t. k < MAX_RETRIES \<and> returned_at (fetch_user toString userId env) = Some k \<and>
     result (fetch_user toString userId env) =
       \<lparr>content = [\<lparr>type = ''text'', text' = t\<rparr>],
        isError = (if succeeds (env k) then None else Some True)\<rparr>"
proof -
  obtain k r where k: "k < MAX_RETRIES" and r: "attempt_step toString userId env k = Return r"
    and run: "fetch_user toString userId env =
      \<lparr>result = r, returned_at = Some k, events = retry_trace toString userId 0 k\<rparr>"
    using fetch_user_returns [of toString userId env] by blast
  obtain t where "r = \<lparr>content = [\<lparr>type = ''text'', text' = t\<rparr>],
      isError = (if succeeds (env k) then None else Some True)\<rparr>"
    using returned_result [OF r] by blast
  then show ?thesis
    using k run by auto
qed

theorem fetch_user_resolves_witness:
  "\<exists>k t. k < MAX_RETRIES \<and> returned_at (fetch_user sample_toString 1 env_html_body) = Some k \<and>
     result (fetch_user sample_toString 1 env_html_body) =
       \<lparr>content = [\<lparr>type = ''text'', text' = t\<rparr>],
        isError = (if succeeds (env_html_body k) then None else Some True)\<rparr>"
  by (rule fetch_user_resolves)

subsection \<open>The return after the loop is never reached\<close>

lemma returned_not_exhausted:
  assumes "attempt_step toString userId env attempt = Return r"
  shows "concat (map text' (content r)) \<noteq> ''Failed to fetch user data after all retry attempts''"
proof (cases rule: attempt_kinds [of toString userId env attempt])
  case (fetch_throws error)
  then show ?thesis
    using thrown_result [OF _ assms] by (simp add: error_result_def split: thrown.split)
next
  case not_found
  then show ?thesis
    using assms by (auto simp: step_returned error_result_def)
next
  case rate_limited
  then show ?thesis
    using assms by (auto simp: step_returned error_result_def split: if_splits)
next
  case (conforming userData)
  then show ?thesis
    using assms by (auto simp: step_returned success_result_def formatUserData_layout)
qed

text \<open>
  Claim C9. With \<open>MAX_RETRIES = 3\<close> and whatever the network does on each attempt, one
  of the three iterations returns: the loop is never left without a \<open>return\<close>, and the
  result is never the one after the loop, whose text is
  \<open>Failed to fetch user data after all retry attempts\<close>.
\<close>

theorem fetch_user_never_falls_through:
  "MAX_RETRIES = 3 \<and>
   (\<exists>k<MAX_RETRIES. returned_at (fetch_user toString userId env) = Some k) \<and>
   returned_at (fetch_user toString userId env) \<noteq> None \<and>
   result (fetch_user toString userId env) \<noteq> exhausted_result \<and>
   the_text (fetch_user toString userId env) \<noteq> ''Failed to fetch user data after all retry attempts''"
proof -
  obtain k r where k: "k < MAX_RETRIES" and r: "attempt_step toString userId env k = Return r"
    and run: "fetch_user toString userId env =
      \<lparr>result = r, returned_at = Some k, events = retry_trace toString userId 0 k\<rparr>"
    using fetch_user_returns [of toString userId env] by blast
  have t: "the_text (fetch_user toString userId env) \<noteq>
      ''Failed to fetch user data after all retry attempts''"
    using returned_not_exhausted [OF r] by (simp add: run the_text_def)
  then have "result (fetch_user toString userId env) \<noteq> exhausted_result"
    by (auto simp: the_text_def exhausted_result_def error_result_def)
  then show ?thesis
    using k t by (auto simp: run MAX_RETRIES_def)
qed


theorem fetch_user_never_falls_through_witness:
  "returned_at (fetch_user sample_toString 1 env_always_rate_limited) \<noteq> None \<and>
   result (fetch_user sample_toString 1 env_always_rate_limited) \<noteq> exhausted_result"
  using fetch_user_never_falls_through [of sample_toString 1 env_always_rate_limited] by simp

subsection \<open>The sum of two numbers\<close>




end
